theory Spec2Isabelle
  imports Complex_Main
begin

section \<open>Python values, exceptions and the HTTP client\<close>

text \<open>
  The three backend tools of \<^verbatim>\<open>lead_processing.py\<close> return whatever
  \<^verbatim>\<open>dict.get\<close> finds in the decoded JSON body, so their result is a Python
  value and not only a string. \<open>pyval\<close> is the image of \<^verbatim>\<open>json.loads\<close>:
  \<^verbatim>\<open>None\<close>, booleans, integers, floats (kept as the rational they denote),
  strings, lists and dictionaries (an association list read with \<open>map_of\<close>).
  Text is \<open>string\<close>; the few glyphs of the source's messages that lie beyond
  Latin-1 are kept as their UTF-8 bytes.
\<close>

datatype pyval =
    PNone
  | PBool bool
  | PInt int
  | PFloat rat
  | PStr string
  | PList "pyval list"
  | PDict "(string \<times> pyval) list"

text \<open>
  The exception classes the handlers of the source tell apart.
  \<^verbatim>\<open>requests.exceptions.Timeout\<close> and \<^verbatim>\<open>HTTPError\<close> are subclasses of
  \<^verbatim>\<open>RequestException\<close>; \<open>RequestException\<close> below is any other subclass of it,
  and \<open>OtherException\<close> any other subclass of \<^verbatim>\<open>Exception\<close>.
\<close>

datatype exn_class =
    Timeout
  | HTTPError
  | RequestException
  | AttributeError
  | ValueError
  | OverflowError
  | ZeroDivisionError
  | EOFError
  | OtherException

datatype exn = Exn (exn_cls: exn_class) (exn_msg: string)

fun is_Timeout :: "exn \<Rightarrow> bool" where
  "is_Timeout (Exn c m) = (c = Timeout)"

fun is_RequestException :: "exn \<Rightarrow> bool" where
  "is_RequestException (Exn c m) = (c = Timeout \<or> c = HTTPError \<or> c = RequestException)"

text \<open>\<^verbatim>\<open>str(n)\<close> of a natural number.\<close>

fun digit_char :: "nat \<Rightarrow> char" where
  "digit_char n = char_of (48 + n)"

fun str_nat :: "nat \<Rightarrow> string" where
  "str_nat n = (if n < 10 then [digit_char n] else str_nat (n div 10) @ [digit_char (n mod 10)])"

text \<open>
  A response of the \<^verbatim>\<open>requests\<close> library: its status line, the URL it came
  from and what \<^verbatim>\<open>response.json()\<close> does (the decoded value, or the exception
  the decoder raises on a body that is not JSON).
\<close>

record response =
  status_code :: nat
  reason :: string
  resp_url :: string
  json_result :: "exn + pyval"

text \<open>
  \<^verbatim>\<open>response.raise_for_status()\<close>: the library raises \<^verbatim>\<open>HTTPError\<close> for the
  status codes 400 to 599 and returns for every other code.
\<close>

definition raise_for_status :: "response \<Rightarrow> exn option" where
  "raise_for_status r =
     (if 400 \<le> status_code r \<and> status_code r < 500 then
        Some (Exn HTTPError (str_nat (status_code r) @ '' Client Error: '' @ reason r
                             @ '' for url: '' @ resp_url r))
      else if 500 \<le> status_code r \<and> status_code r < 600 then
        Some (Exn HTTPError (str_nat (status_code r) @ '' Server Error: '' @ reason r
                             @ '' for url: '' @ resp_url r))
      else None)"

text \<open>
  The call \<^verbatim>\<open>requests.post(url, json=..., headers=..., timeout=30)\<close> as the source
  issues it. The transport is the environment: a function from the request to the
  exception \<^verbatim>\<open>post\<close> raises or the response it returns.
\<close>

record request =
  req_method :: string
  req_url :: string
  req_json :: "pyval option"
  req_headers :: "(string \<times> string) list"
  req_timeout :: nat

type_synonym transport = "request \<Rightarrow> exn + response"

text \<open>
  \<^verbatim>\<open>os.getenv\<close> returns \<^verbatim>\<open>None\<close> for a variable that is not set, and an
  f-string renders it as the text \<^verbatim>\<open>None\<close>.
\<close>

record config =
  AZURE_FUNCTION_BASE_URL :: "string option"
  AZURE_FUNCTION_CODE :: "string option"

fun fmt_env :: "string option \<Rightarrow> string" where
  "fmt_env None = ''None''"
| "fmt_env (Some s) = s"

text \<open>
  \<^verbatim>\<open>result.get(key, default)\<close>: a dictionary answers with the stored value or
  the default; any other decoded value has no \<^verbatim>\<open>get\<close>, and the attribute
  lookup raises \<^verbatim>\<open>AttributeError\<close>.
\<close>

fun type_name :: "pyval \<Rightarrow> string" where
  "type_name PNone = ''NoneType''"
| "type_name (PBool b) = ''bool''"
| "type_name (PInt i) = ''int''"
| "type_name (PFloat q) = ''float''"
| "type_name (PStr s) = ''str''"
| "type_name (PList xs) = ''list''"
| "type_name (PDict d) = ''dict''"

fun py_get :: "pyval \<Rightarrow> string \<Rightarrow> pyval \<Rightarrow> exn + pyval" where
  "py_get (PDict d) k dflt = Inr (case map_of d k of None \<Rightarrow> dflt | Some v \<Rightarrow> v)"
| "py_get v k dflt =
     Inl (Exn AttributeError ([CHR 0x27] @ type_name v @ [CHR 0x27]
                              @ '' object has no attribute '' @ [CHR 0x27] @ ''get'' @ [CHR 0x27]))"

fun is_str :: "pyval \<Rightarrow> bool" where
  "is_str (PStr s) = True"
| "is_str v = False"

section \<open>The backend tools of lead\_processing.py\<close>

text \<open>
  Each tool returns what it printed and its outcome: \<open>Inl\<close> an exception that leaves
  the function, \<open>Inr\<close> the value it returns. The body of the \<^verbatim>\<open>try\<close> is a
  function of its own, so that every \<^verbatim>\<open>except\<close> clause is a branch on its
  result. The parameter \<^verbatim>\<open>dummy\<close> of \<^verbatim>\<open>generate_quote_id\<close> is never read and is
  left out.
\<close>

definition print_line :: "string \<Rightarrow> string" where
  "print_line s = s @ [CHR 0x0A]"

definition json_headers :: "(string \<times> string) list" where
  "json_headers = [(''Content-Type'', ''application/json'')]"

text \<open>
  The statements the three \<^verbatim>\<open>try\<close> bodies share after the request is built:
  \<^verbatim>\<open>response = requests.post(...)\<close>, \<^verbatim>\<open>response.raise_for_status()\<close>,
  \<^verbatim>\<open>result = response.json()\<close>, \<^verbatim>\<open>return result.get(key, default)\<close>.
\<close>

definition post_and_get :: "transport \<Rightarrow> request \<Rightarrow> string \<Rightarrow> pyval \<Rightarrow> exn + pyval" where
  "post_and_get post rq k dflt =
     (case post rq of
        Inl e \<Rightarrow> Inl e
      | Inr r \<Rightarrow>
          (case raise_for_status r of
             Some e \<Rightarrow> Inl e
           | None \<Rightarrow>
               (case json_result r of
                  Inl e \<Rightarrow> Inl e
                | Inr result \<Rightarrow> py_get result k dflt)))"

subsection \<open>generate\_quote\_id\<close>

definition generate_quote_id_request :: "config \<Rightarrow> request" where
  "generate_quote_id_request cfg =
     \<lparr> req_method = ''POST'',
       req_url = fmt_env (AZURE_FUNCTION_BASE_URL cfg) @ ''/generate-quote-id?code=''
                 @ fmt_env (AZURE_FUNCTION_CODE cfg),
       req_json = None,
       req_headers = json_headers,
       req_timeout = 30 \<rparr>"

definition generate_quote_id :: "config \<Rightarrow> transport \<Rightarrow> string list \<times> (exn + pyval)" where
  "generate_quote_id cfg post =
     (case post_and_get post (generate_quote_id_request cfg) ''quote_id'' (PStr []) of
        Inr v \<Rightarrow> ([], Inr v)
      | Inl e \<Rightarrow> ([], Inr (PStr (''Error: Could not generate quote ID. '' @ exn_msg e))))"

subsection \<open>send\_email\_notification\<close>

definition send_email_request :: "config \<Rightarrow> string \<Rightarrow> string \<Rightarrow> string \<Rightarrow> request" where
  "send_email_request cfg to_email quote_id full_name =
     \<lparr> req_method = ''POST'',
       req_url = fmt_env (AZURE_FUNCTION_BASE_URL cfg) @ ''/send-email?code=''
                 @ fmt_env (AZURE_FUNCTION_CODE cfg),
       req_json = Some (PDict [(''to_email'', PStr to_email),
                               (''quote_id'', PStr quote_id),
                               (''full_name'', PStr full_name)]),
       req_headers = json_headers,
       req_timeout = 30 \<rparr>"

definition send_email_notification ::
  "config \<Rightarrow> transport \<Rightarrow> string \<Rightarrow> string \<Rightarrow> string \<Rightarrow> string list \<times> (exn + pyval)" where
  "send_email_notification cfg post to_email quote_id full_name =
     (case post_and_get post (send_email_request cfg to_email quote_id full_name)
             ''message'' (PStr ''Success: Email notification sent.'') of
        Inr v \<Rightarrow> ([], Inr v)
      | Inl e \<Rightarrow>
          ([print_line (''Error sending email: '' @ exn_msg e)],
           Inr (PStr (''An error occurred while sending the email to '' @ to_email
                      @ ''. Please try again later.''))))"

subsection \<open>update\_cosmos\_db\<close>

definition update_cosmos_db_request ::
  "config \<Rightarrow> string \<Rightarrow> string \<Rightarrow> string \<Rightarrow> string \<Rightarrow> int \<Rightarrow> string \<Rightarrow> request" where
  "update_cosmos_db_request cfg quote_id full_name email phone_number age location =
     \<lparr> req_method = ''POST'',
       req_url = fmt_env (AZURE_FUNCTION_BASE_URL cfg) @ ''/leads?code=''
                 @ fmt_env (AZURE_FUNCTION_CODE cfg),
       req_json = Some (PDict [(''quote_id'', PStr quote_id),
                               (''full_name'', PStr full_name),
                               (''email'', PStr email),
                               (''phone_number'', PStr phone_number),
                               (''age'', PInt age),
                               (''location'', PStr location)]),
       req_headers = json_headers,
       req_timeout = 30 \<rparr>"

text \<open>
  The three handlers are tried in the order of the source: \<^verbatim>\<open>Timeout\<close> first,
  then any other \<^verbatim>\<open>RequestException\<close>, then any other \<^verbatim>\<open>Exception\<close>.
\<close>

definition update_cosmos_db ::
  "config \<Rightarrow> transport \<Rightarrow> string \<Rightarrow> string \<Rightarrow> string \<Rightarrow> string \<Rightarrow> int \<Rightarrow> string
     \<Rightarrow> string list \<times> (exn + pyval)" where
  "update_cosmos_db cfg post quote_id full_name email phone_number age location =
     (case post_and_get post
             (update_cosmos_db_request cfg quote_id full_name email phone_number age location)
             ''message'' (PStr ''Success: Lead information has been saved to the database.'') of
        Inr v \<Rightarrow> ([], Inr v)
      | Inl e \<Rightarrow>
          (if is_Timeout e then
             ([print_line (''Timeout while calling Azure Function for lead: '' @ full_name)],
              Inr (PStr (''The request timed out while saving lead information for '' @ full_name
                         @ ''. Please try again later.'')))
           else if is_RequestException e then
             ([print_line (''Failed to call Azure Function: '' @ exn_msg e)],
              Inr (PStr (''An error occurred while saving the lead information for '' @ full_name
                         @ ''. Please try again later.'')))
           else
             ([print_line (''Unexpected error: '' @ exn_msg e)],
              Inr (PStr (''An unexpected error occurred while saving the lead information for ''
                         @ full_name @ ''. Please try again later.'')))))"

text \<open>What the claims say of a returned value.\<close>

fun error_prefixed :: "pyval \<Rightarrow> bool" where
  "error_prefixed (PStr s) = (take 7 s = ''Error: '')"
| "error_prefixed v = False"

fun is_dict :: "pyval \<Rightarrow> bool" where
  "is_dict (PDict d) = True"
| "is_dict v = False"

text \<open>
  Sample environments: a backend that answers every request with the given status
  line and body, and a configuration with both variables set.
\<close>

definition answer :: "nat \<Rightarrow> string \<Rightarrow> exn + pyval \<Rightarrow> transport" where
  "answer code rsn body rq =
     Inr \<lparr> status_code = code, reason = rsn, resp_url = req_url rq, json_result = body \<rparr>"

definition cfg0 :: config where
  "cfg0 = \<lparr> AZURE_FUNCTION_BASE_URL = Some ''https://f.example/api'',
            AZURE_FUNCTION_CODE = Some ''k'' \<rparr>"

section \<open>The conversation drivers\<close>

text \<open>
  Lines typed by the user are strings of code points below 256.
  \<^verbatim>\<open>str.lower\<close> maps the capital letters A to Z, and the capital letters of
  Latin-1 (U+00C0 to U+00DE without the multiplication sign U+00D7), to the letter
  32 places further; \<^verbatim>\<open>str.strip\<close> removes the white space of that range from
  both ends.
\<close>

definition lower_char :: "char \<Rightarrow> char" where
  "lower_char c =
     (let n = (of_char c :: nat)
      in if (65 \<le> n \<and> n \<le> 90) \<or> (192 \<le> n \<and> n \<le> 222 \<and> n \<noteq> 215)
         then char_of (n + 32) else c)"

definition lower :: "string \<Rightarrow> string" where
  "lower s = map lower_char s"

definition is_space :: "char \<Rightarrow> bool" where
  "is_space c = ((of_char c :: nat) \<in> set [9, 10, 11, 12, 13, 28, 29, 30, 31, 32, 133, 160])"

definition strip :: "string \<Rightarrow> string" where
  "strip s = rev (dropWhile is_space (rev (dropWhile is_space s)))"

definition nl :: string where
  "nl = [CHR 0x0A]"

text \<open>Glyphs of the messages, as UTF-8: U+2713, U+26A0, U+274C and U+1F4E4.\<close>

definition check_mark :: string where
  "check_mark = [CHR 0xE2, CHR 0x9C, CHR 0x93]"

definition warning_sign :: string where
  "warning_sign = [CHR 0xE2, CHR 0x9A, CHR 0xA0]"

definition cross_mark :: string where
  "cross_mark = [CHR 0xE2, CHR 0x9D, CHR 0x8C]"

definition outbox_tray :: string where
  "outbox_tray = [CHR 0xF0, CHR 0x9F, CHR 0x93, CHR 0xA4]"

text \<open>
  The hosted agent service is the environment. A run has a status and a stored error
  (\<open>run_last_error\<close> is how an f-string renders \<^verbatim>\<open>run.last_error\<close>). For one turn
  of the loop the service decides whether \<^verbatim>\<open>client.messages.create\<close> raises, what
  \<^verbatim>\<open>client.runs.create_and_process\<close> returns or raises, and what
  \<^verbatim>\<open>client.messages.get_last_message_text_by_role\<close> returns: \<^verbatim>\<open>None\<close>, or a
  message whose \<^verbatim>\<open>text.value\<close> is the given string.
\<close>

record run =
  run_status :: string
  run_last_error :: string

record turn =
  messages_create :: "exn option"
  create_and_process :: "exn + run"
  get_last_message_text :: "exn + string option"

text \<open>The calls a driver makes on the client, in order, with the arguments that matter.\<close>

datatype client_call =
    GetAgent string
  | ThreadsCreate
  | MessagesCreate string string
  | RunsCreateAndProcess string string
  | GetLastMessageText string

text \<open>
  How one pass through the loop body ends: \<^verbatim>\<open>break\<close>, the next pass
  (\<^verbatim>\<open>continue\<close> or the end of the body), or an exception that leaves the loop for
  the handler around it.
\<close>

datatype loop_ctl = Break | Continue | Raise exn

record iteration =
  printed :: "string list"
  calls :: "client_call list"
  ctl :: loop_ctl

subsection \<open>The loop of main in lead\_processing.py\<close>

definition lp_iteration :: "turn \<Rightarrow> string \<Rightarrow> string \<Rightarrow> string \<Rightarrow> iteration" where
  "lp_iteration t thread_id agent_id user_prompt =
     (if lower user_prompt = ''quit'' then
        \<lparr> printed = [], calls = [], ctl = Break \<rparr>
      else if length user_prompt = 0 then
        \<lparr> printed = [print_line ''Please enter a prompt.''], calls = [], ctl = Continue \<rparr>
      else
        (case messages_create t of
           Some e \<Rightarrow>
             \<lparr> printed = [], calls = [MessagesCreate thread_id user_prompt], ctl = Raise e \<rparr>
         | None \<Rightarrow>
             (case create_and_process t of
                Inl e \<Rightarrow>
                  \<lparr> printed = [],
                    calls = [MessagesCreate thread_id user_prompt,
                             RunsCreateAndProcess thread_id agent_id],
                    ctl = Raise e \<rparr>
              | Inr run \<Rightarrow>
                  (case get_last_message_text t of
                     Inl e \<Rightarrow>
                       \<lparr> printed = [],
                         calls = [MessagesCreate thread_id user_prompt,
                                  RunsCreateAndProcess thread_id agent_id,
                                  GetLastMessageText thread_id],
                         ctl = Raise e \<rparr>
                   | Inr last_msg \<Rightarrow>
                       \<lparr> printed = (case last_msg of
                                      None \<Rightarrow> []
                                    | Some v \<Rightarrow> [print_line (''Last Message: '' @ v)]),
                         calls = [MessagesCreate thread_id user_prompt,
                                  RunsCreateAndProcess thread_id agent_id,
                                  GetLastMessageText thread_id],
                         ctl = Continue \<rparr>))))"

subsection \<open>The loop of run\_chat\_interface in chat\_with\_lead\_processing\_agent.py\<close>

definition chat_iteration :: "turn \<Rightarrow> string \<Rightarrow> string \<Rightarrow> string \<Rightarrow> iteration" where
  "chat_iteration t thread_id agent_id user_prompt =
     (if lower user_prompt = ''quit'' then
        \<lparr> printed = [print_line (nl @ ''Thank you for using the Lead Generation Agent!'')],
          calls = [], ctl = Break \<rparr>
      else if length (strip user_prompt) = 0 then
        \<lparr> printed = [print_line (''Please enter a message.'' @ nl)], calls = [], ctl = Continue \<rparr>
      else
        (case messages_create t of
           Some e \<Rightarrow>
             \<lparr> printed = [], calls = [MessagesCreate thread_id user_prompt], ctl = Raise e \<rparr>
         | None \<Rightarrow>
             (case create_and_process t of
                Inl e \<Rightarrow>
                  \<lparr> printed = [nl @ ''Agent: ''],
                    calls = [MessagesCreate thread_id user_prompt,
                             RunsCreateAndProcess thread_id agent_id],
                    ctl = Raise e \<rparr>
              | Inr run \<Rightarrow>
                  (case get_last_message_text t of
                     Inl e \<Rightarrow>
                       \<lparr> printed = [nl @ ''Agent: ''],
                         calls = [MessagesCreate thread_id user_prompt,
                                  RunsCreateAndProcess thread_id agent_id,
                                  GetLastMessageText thread_id],
                         ctl = Raise e \<rparr>
                   | Inr last_msg \<Rightarrow>
                       \<lparr> printed =
                           [nl @ ''Agent: '']
                           @ [case last_msg of
                                None \<Rightarrow> print_line (''No response from agent.'' @ nl)
                              | Some v \<Rightarrow> print_line (v @ nl)]
                           @ (if run_status run = ''failed''
                              then [print_line (warning_sign @ '' Run failed: ''
                                                @ run_last_error run @ nl)]
                              else []),
                         calls = [MessagesCreate thread_id user_prompt,
                                  RunsCreateAndProcess thread_id agent_id,
                                  GetLastMessageText thread_id],
                         ctl = Continue \<rparr>))))"

text \<open>
  The \<^verbatim>\<open>while True\<close> loops, fed by the lines standard input still holds, each
  with what the service does on that turn. \<^verbatim>\<open>input(prompt)\<close> writes the prompt
  and raises \<^verbatim>\<open>EOFError\<close> when no line is left. The result is everything
  printed, every call made, and the exception that left the loop, if one did.
\<close>

fun drive ::
  "(turn \<Rightarrow> string \<Rightarrow> iteration) \<Rightarrow> string \<Rightarrow> (string \<times> turn) list
     \<Rightarrow> string list \<times> client_call list \<times> exn option" where
  "drive body prompt [] = ([prompt], [], Some (Exn EOFError ''EOF when reading a line''))"
| "drive body prompt ((line, t) # rest) =
     (let it = body t line in
      case ctl it of
        Break \<Rightarrow> (prompt # printed it, calls it, None)
      | Raise e \<Rightarrow> (prompt # printed it, calls it, Some e)
      | Continue \<Rightarrow>
          (case drive body prompt rest of
             (out, cs, r) \<Rightarrow> (prompt # printed it @ out, calls it @ cs, r)))"


definition chat_loop ::
  "string \<Rightarrow> string \<Rightarrow> (string \<times> turn) list \<Rightarrow> string list \<times> client_call list \<times> exn option" where
  "chat_loop thread_id agent_id turns =
     drive (\<lambda>t line. chat_iteration t thread_id agent_id line) ''Your Input: '' turns"

subsection \<open>run\_chat\_interface and the entry point of the chat script\<close>

text \<open>
  The client is taken as constructed. What is modelled is standard output and the
  calls on the client; the traceback the handler writes goes to standard error.
\<close>

record agent =
  agent_name :: string
  agent_ident :: string

record chat_client =
  get_agent :: "string \<Rightarrow> exn + agent"
  threads_create :: "exn + string"

definition chat_handler :: "string list \<Rightarrow> client_call list \<Rightarrow> exn \<Rightarrow> string list \<times> client_call list" where
  "chat_handler out cs e =
     (out @ [print_line (nl @ cross_mark @ '' An error occurred: '' @ exn_msg e)], cs)"

definition banner :: "string list" where
  "banner =
     [print_line (replicate 60 (CHR ''='')),
      print_line ''Insurance Customer Service - Chat Interface'',
      print_line (replicate 60 (CHR ''='')),
      print_line (''Type 'quit' to exit'' @ nl)]"

definition run_chat_interface ::
  "chat_client \<Rightarrow> (string \<times> turn) list \<Rightarrow> string \<Rightarrow> string list \<times> client_call list" where
  "run_chat_interface client turns agent_id =
     (case get_agent client agent_id of
        Inl e \<Rightarrow> chat_handler [] [GetAgent agent_id] e
      | Inr a \<Rightarrow>
          (let out1 = [print_line (check_mark @ '' Connected to agent: ''
                                   @ [CHR 0x27] @ agent_name a @ [CHR 0x27]
                                   @ '' (ID: '' @ agent_ident a @ '')'')]
           in case threads_create client of
                Inl e \<Rightarrow> chat_handler out1 [GetAgent agent_id, ThreadsCreate] e
              | Inr thread_id \<Rightarrow>
                  (let out2 = out1 @ [print_line (check_mark
                                        @ '' Created conversation thread with ID: ''
                                        @ thread_id @ nl)] @ banner
                   in case chat_loop thread_id agent_id turns of
                        (out, cs, None) \<Rightarrow> (out2 @ out, [GetAgent agent_id, ThreadsCreate] @ cs)
                      | (out, cs, Some e) \<Rightarrow>
                          chat_handler (out2 @ out) ([GetAgent agent_id, ThreadsCreate] @ cs) e)))"

definition AGENT_ID :: string where
  "AGENT_ID = ''asst_xS4WzzjvAasllgAnOYPiWFe2''"

text \<open>
  The \<^verbatim>\<open>__main__\<close> block: \<^verbatim>\<open>agent_id = os.getenv("AGENT_ID")\<close>, then
  \<^verbatim>\<open>agent_id = AGENT_ID\<close>, then \<^verbatim>\<open>run_chat_interface(agent_id)\<close>.
\<close>

definition chat_main ::
  "(string \<Rightarrow> string option) \<Rightarrow> chat_client \<Rightarrow> (string \<times> turn) list
     \<Rightarrow> string list \<times> client_call list" where
  "chat_main getenv client turns =
     (let agent_id = getenv ''AGENT_ID'';
          agent_id = AGENT_ID
      in run_chat_interface client turns agent_id)"

section \<open>The tool declaration of agent\_lead\_processing\_setup.py\<close>

text \<open>
  \<^verbatim>\<open>openapi_spec\<close> is a dictionary literal; the two values it takes from the
  environment are \<^verbatim>\<open>os.getenv\<close> results, a string or \<^verbatim>\<open>None\<close>.
\<close>

fun env_val :: "string option \<Rightarrow> pyval" where
  "env_val None = PNone"
| "env_val (Some s) = PStr s"

definition openapi_spec :: "string option \<Rightarrow> string option \<Rightarrow> pyval" where
  "openapi_spec azure_function_base_url azure_function_code =
     PDict [
       (''openapi'', PStr ''3.0.0''),
       (''info'', PDict [
         (''title'', PStr ''Lead Management API''),
         (''description'', PStr ''API for managing leads, generating quote IDs, and sending email notifications''),
         (''version'', PStr ''1.0.0'')]),
       (''servers'', PList [
         PDict [
           (''url'', env_val azure_function_base_url)]]),
       (''paths'', PDict [
         (''/api/generate-quote-id'', PDict [
           (''get'', PDict [
             (''operationId'', PStr ''generate_quote_id''),
             (''summary'', PStr ''Generates a unique quote ID''),
             (''description'', PStr ''Creates a new quote ID for a potential customer''),
             (''parameters'', PList [
               PDict [
                 (''name'', PStr ''code''),
                 (''in'', PStr ''query''),
                 (''required'', PBool True),
                 (''schema'', PDict [
                   (''type'', PStr ''string''),
                   (''default'', env_val azure_function_code)]),
                 (''description'', PStr ''Azure Function authorization code'')]]),
             (''responses'', PDict [
               (''200'', PDict [
                 (''description'', PStr ''Quote ID generated successfully''),
                 (''content'', PDict [
                   (''application/json'', PDict [
                     (''schema'', PDict [
                       (''type'', PStr ''object''),
                       (''properties'', PDict [
                         (''quote_id'', PDict [
                           (''type'', PStr ''string''),
                           (''description'', PStr ''The generated quote ID'')])])])])])])])])]),
         (''/api/leads'', PDict [
           (''post'', PDict [
             (''operationId'', PStr ''process_lead''),
             (''summary'', PStr ''Processes and stores lead information''),
             (''description'', PStr ''Saves lead information to the database''),
             (''parameters'', PList [
               PDict [
                 (''name'', PStr ''code''),
                 (''in'', PStr ''query''),
                 (''required'', PBool True),
                 (''schema'', PDict [
                   (''type'', PStr ''string''),
                   (''default'', env_val azure_function_code)]),
                 (''description'', PStr ''Azure Function authorization code'')]]),
             (''requestBody'', PDict [
               (''required'', PBool True),
               (''content'', PDict [
                 (''application/json'', PDict [
                   (''schema'', PDict [
                     (''type'', PStr ''object''),
                     (''properties'', PDict [
                       (''quote_id'', PDict [
                         (''type'', PStr ''string''),
                         (''description'', PStr ''The quote ID associated with this lead'')]),
                       (''full_name'', PDict [
                         (''type'', PStr ''string''),
                         (''description'', PStr ''Full name of the lead'')]),
                       (''email'', PDict [
                         (''type'', PStr ''string''),
                         (''format'', PStr ''email''),
                         (''description'', PStr ''Email address of the lead'')]),
                       (''phone_number'', PDict [
                         (''type'', PStr ''string''),
                         (''description'', PStr ''Phone number of the lead'')]),
                       (''age'', PDict [
                         (''type'', PStr ''integer''),
                         (''description'', PStr ''Age of the lead'')]),
                       (''location'', PDict [
                         (''type'', PStr ''string''),
                         (''description'', PStr ''Location/city of the lead'')])]),
                     (''required'', PList [PStr ''quote_id'', PStr ''full_name'', PStr ''email'', PStr ''phone_number'', PStr ''age'', PStr ''location''])])])])]),
             (''responses'', PDict [
               (''200'', PDict [
                 (''description'', PStr ''Lead processed successfully''),
                 (''content'', PDict [
                   (''application/json'', PDict [
                     (''schema'', PDict [
                       (''type'', PStr ''object''),
                       (''properties'', PDict [
                         (''status'', PDict [
                           (''type'', PStr ''string''),
                           (''description'', PStr ''Status of the operation'')]),
                         (''message'', PDict [
                           (''type'', PStr ''string''),
                           (''description'', PStr ''Success message'')])])])])])])])])]),
         (''/api/send-email'', PDict [
           (''post'', PDict [
             (''operationId'', PStr ''send_email_notification''),
             (''summary'', PStr ''Sends an email notification''),
             (''description'', PStr ''Sends an email notification with quote ID and full name to the lead''),
             (''parameters'', PList [
               PDict [
                 (''name'', PStr ''code''),
                 (''in'', PStr ''query''),
                 (''required'', PBool True),
                 (''schema'', PDict [
                   (''type'', PStr ''string''),
                   (''default'', env_val azure_function_code)]),
                 (''description'', PStr ''Azure Function authorization code'')]]),
             (''requestBody'', PDict [
               (''required'', PBool True),
               (''content'', PDict [
                 (''application/json'', PDict [
                   (''schema'', PDict [
                     (''type'', PStr ''object''),
                     (''properties'', PDict [
                       (''to_email'', PDict [
                         (''type'', PStr ''string''),
                         (''format'', PStr ''email''),
                         (''description'', PStr ''Recipient email address'')]),
                       (''quote_id'', PDict [
                         (''type'', PStr ''string''),
                         (''description'', PStr ''Quote ID to include in the email'')]),
                       (''full_name'', PDict [
                         (''type'', PStr ''string''),
                         (''description'', PStr ''Full name of the recipient'')])]),
                     (''required'', PList [PStr ''to_email'', PStr ''quote_id'', PStr ''full_name''])])])])]),
             (''responses'', PDict [
               (''200'', PDict [
                 (''description'', PStr ''Email sent successfully''),
                 (''content'', PDict [
                   (''application/json'', PDict [
                     (''schema'', PDict [
                       (''type'', PStr ''object''),
                       (''properties'', PDict [
                         (''status'', PDict [
                           (''type'', PStr ''string''),
                           (''description'', PStr ''Status of the operation'')]),
                         (''message'', PDict [
                           (''type'', PStr ''string''),
                           (''description'', PStr ''Success message'')])])])])])])])])])])]"

text \<open>
  Reading the declaration as the agent runtime does: every path of \<^verbatim>\<open>paths\<close>,
  every method under it, with the operation id declared there.
\<close>

fun items :: "pyval \<Rightarrow> (string \<times> pyval) list" where
  "items (PDict d) = d"
| "items v = []"

fun subscript :: "pyval \<Rightarrow> string \<Rightarrow> pyval" where
  "subscript v k = (case map_of (items v) k of None \<Rightarrow> PNone | Some w \<Rightarrow> w)"

definition declared_operations :: "pyval \<Rightarrow> (string \<times> string \<times> pyval) list" where
  "declared_operations spec =
     concat (map (\<lambda>(path, item).
                    map (\<lambda>(method, operation). (path, method, subscript operation ''operationId''))
                        (items item))
                 (items (subscript spec ''paths'')))"

section \<open>upload\_faq\_to\_vector\_store of agent\_insurance\_customer\_support.py\<close>

text \<open>
  The environment: \<open>files_upload\<close> is \<^verbatim>\<open>open(faq_file_path, "rb")\<close> followed by
  \<^verbatim>\<open>client.files.upload\<close> (the file id, or the exception either raises);
  \<open>vector_stores_get k i\<close> is what the call \<^verbatim>\<open>client.vector_stores.get(i)\<close>
  does when it is the \<open>k\<close>-th such call, counted from 0.
\<close>

record vector_store =
  vs_id :: string
  vs_status :: string

record vs_client =
  files_upload :: "string \<Rightarrow> exn + string"
  vector_stores_create :: "string \<Rightarrow> string list \<Rightarrow> exn + vector_store"
  vector_stores_get :: "nat \<Rightarrow> string \<Rightarrow> exn + vector_store"

definition max_wait :: nat where
  "max_wait = 60"

text \<open>
  The \<^verbatim>\<open>while elapsed < max_wait\<close> loop. \<open>elapsed\<close> starts at 0 and grows by 2 on
  every pass, so the pass that reads \<open>elapsed\<close> makes call number \<open>elapsed div 2\<close>.
  \<^verbatim>\<open>time.sleep(2)\<close> changes nothing the function reads.
\<close>

function wait_loop :: "vs_client \<Rightarrow> nat \<Rightarrow> vector_store \<Rightarrow> string list \<times> (exn + vector_store)" where
  "wait_loop client elapsed vector_store =
     (if elapsed < max_wait then
        (case vector_stores_get client (elapsed div 2) (vs_id vector_store) of
           Inl e \<Rightarrow> ([], Inl e)
         | Inr vs \<Rightarrow>
             if vs_status vs = ''completed'' then
               ([print_line (check_mark @ '' Vector store ready!'')], Inr vs)
             else if vs_status vs = ''failed'' then
               ([], Inl (Exn OtherException ''Vector store processing failed''))
             else
               (case wait_loop client (elapsed + 2) vs of
                  (out, r) \<Rightarrow> (''.'' # out, r)))
      else ([], Inr vector_store))"
  by pat_completeness auto
termination
  by (relation "measure (\<lambda>(client, elapsed, vector_store). max_wait - elapsed)") auto

definition upload_handler :: "string list \<Rightarrow> exn \<Rightarrow> string list \<times> (exn + string)" where
  "upload_handler out e =
     (out @ [print_line (cross_mark @ '' Error uploading FAQ file: '' @ exn_msg e)], Inl e)"

definition upload_faq_to_vector_store :: "vs_client \<Rightarrow> string \<Rightarrow> string list \<times> (exn + string)" where
  "upload_faq_to_vector_store client faq_file_path =
     (let out0 = [print_line (nl @ outbox_tray @ '' Uploading FAQ file to vector store...'')]
      in case files_upload client faq_file_path of
           Inl e \<Rightarrow> upload_handler out0 e
         | Inr file_id \<Rightarrow>
             (let out1 = out0 @ [print_line (check_mark @ '' File uploaded with ID: '' @ file_id)]
              in case vector_stores_create client ''Life Insurance FAQ Knowledge Base'' [file_id] of
                   Inl e \<Rightarrow> upload_handler out1 e
                 | Inr vector_store \<Rightarrow>
                     (let out2 = out1
                            @ [print_line (check_mark @ '' Vector store created with ID: ''
                                           @ vs_id vector_store),
                               print_line (check_mark @ '' Processing file in vector store...'')]
                      in case wait_loop client 0 vector_store of
                           (out, Inl e) \<Rightarrow> upload_handler (out2 @ out) e
                         | (out, Inr vs) \<Rightarrow> (out2 @ out, Inr (vs_id vs)))))"

section \<open>OpenAICostCalculator of openAI\_cost\_calculator.py\<close>

text \<open>
  Python floats are binary doubles: a finite double is kept as the rational number
  it denotes, beside the two infinities and NaN. A float operation computes the
  exact result and rounds it to the nearest double; that rounding is the parameter
  \<open>fl\<close> (with \<open>fl\<close> the identity the finite arithmetic is exact). An exact result of
  magnitude \<open>2 ^ 1024 - 2 ^ 970\<close> or more (the largest double plus half a unit in
  its last place) has no nearest double: a float multiplication or addition gives an
  infinity there, and the true division of two integers raises
  \<^verbatim>\<open>OverflowError\<close>.
\<close>

datatype pyfloat = Finite rat | PosInf | NegInf | NaN

definition dbl_overflow :: rat where
  "dbl_overflow = 2 ^ 1024 - 2 ^ 970"

definition to_double :: "(rat \<Rightarrow> rat) \<Rightarrow> rat \<Rightarrow> pyfloat" where
  "to_double fl x =
     (if dbl_overflow \<le> x then PosInf
      else if x \<le> - dbl_overflow then NegInf
      else Finite (fl x))"

fun inf_of :: "bool \<Rightarrow> pyfloat" where
  "inf_of negative = (if negative then NegInf else PosInf)"

text \<open>\<^verbatim>\<open>a / b\<close> on two integers.\<close>

definition int_truediv :: "(rat \<Rightarrow> rat) \<Rightarrow> int \<Rightarrow> int \<Rightarrow> exn + pyfloat" where
  "int_truediv fl a b =
     (if b = 0 then Inl (Exn ZeroDivisionError ''division by zero'')
      else if dbl_overflow \<le> \<bar>of_int a / of_int b\<bar> then
        Inl (Exn OverflowError ''integer division result too large for a float'')
      else Inr (Finite (fl (of_int a / of_int b))))"

text \<open>\<^verbatim>\<open>x * y\<close> and \<^verbatim>\<open>x + y\<close> on two floats.\<close>

fun fmul :: "(rat \<Rightarrow> rat) \<Rightarrow> pyfloat \<Rightarrow> pyfloat \<Rightarrow> pyfloat" where
  "fmul fl (Finite a) (Finite b) = to_double fl (a * b)"
| "fmul fl NaN y = NaN"
| "fmul fl x NaN = NaN"
| "fmul fl (Finite a) y = (if a = 0 then NaN else inf_of ((a < 0) \<noteq> (y = NegInf)))"
| "fmul fl x (Finite b) = (if b = 0 then NaN else inf_of ((x = NegInf) \<noteq> (b < 0)))"
| "fmul fl x y = inf_of ((x = NegInf) \<noteq> (y = NegInf))"

fun fadd :: "(rat \<Rightarrow> rat) \<Rightarrow> pyfloat \<Rightarrow> pyfloat \<Rightarrow> pyfloat" where
  "fadd fl (Finite a) (Finite b) = to_double fl (a + b)"
| "fadd fl NaN y = NaN"
| "fadd fl x NaN = NaN"
| "fadd fl (Finite a) y = y"
| "fadd fl x (Finite b) = x"
| "fadd fl x y = (if x = y then x else NaN)"

text \<open>
  \<^verbatim>\<open>round(x, n)\<close>: an infinity or NaN is returned as it is; the exact value of
  a finite double is rounded to \<open>n\<close> decimals, ties to the even digit, and the
  nearest double of that is returned, or \<^verbatim>\<open>OverflowError\<close> raised when there is
  none.
\<close>

definition round_half_even :: "rat \<Rightarrow> int" where
  "round_half_even x =
     (let f = \<lfloor>x\<rfloor>; d = x - of_int f
      in if d < 1 / 2 then f
         else if 1 / 2 < d then f + 1
         else if even f then f else f + 1)"

definition decimals :: "nat \<Rightarrow> rat \<Rightarrow> rat" where
  "decimals ndigits x = of_int (round_half_even (x * 10 ^ ndigits)) / 10 ^ ndigits"

fun py_round :: "(rat \<Rightarrow> rat) \<Rightarrow> pyfloat \<Rightarrow> nat \<Rightarrow> exn + pyfloat" where
  "py_round fl (Finite x) ndigits =
     (let y = decimals ndigits x
      in if dbl_overflow \<le> \<bar>y\<bar> then
           Inl (Exn OverflowError ''rounded value too large to represent'')
         else Inr (Finite (fl y)))"
| "py_round fl x ndigits = Inr x"

text \<open>The prices are float literals, finite doubles.\<close>

record pricing =
  input_price_per_1m :: rat
  output_price_per_1m :: rat

definition OPENAI_PRICING :: "(rat \<Rightarrow> rat) \<Rightarrow> (string \<times> pricing) list" where
  "OPENAI_PRICING fl =
     [(''gpt-4o'', \<lparr> input_price_per_1m = fl (5 / 2), output_price_per_1m = fl 10 \<rparr>),
      (''gpt-4o-mini'', \<lparr> input_price_per_1m = fl (3 / 20), output_price_per_1m = fl (3 / 5) \<rparr>),
      (''gpt-4-turbo'', \<lparr> input_price_per_1m = fl 10, output_price_per_1m = fl 30 \<rparr>),
      (''gpt-4'', \<lparr> input_price_per_1m = fl 30, output_price_per_1m = fl 60 \<rparr>),
      (''gpt-3.5-turbo'', \<lparr> input_price_per_1m = fl (1 / 2), output_price_per_1m = fl (3 / 2) \<rparr>)]"

record CostRecord =
  model :: string
  input_tokens :: int
  output_tokens :: int
  input_cost :: pyfloat
  output_cost :: pyfloat
  total_cost :: pyfloat
  timestamp :: string

text \<open>
  \<open>calculate_cost\<close> takes the list \<^verbatim>\<open>self.session_costs\<close> and returns it as the
  call leaves it, with the exception raised or the record returned. The statements
  run in the order of the source: the two costs, their sum, then the three
  \<^verbatim>\<open>round\<close> calls in the arguments of \<^verbatim>\<open>CostRecord\<close>, then the append.
  \<open>now\<close> is \<^verbatim>\<open>datetime.now().isoformat()\<close>. The record constructor accepts
  every float, the infinities and NaN included. The line the method prints is not
  part of the result and is left out.
\<close>

definition calculate_cost ::
  "(rat \<Rightarrow> rat) \<Rightarrow> string \<Rightarrow> CostRecord list \<Rightarrow> string \<Rightarrow> int \<Rightarrow> int
     \<Rightarrow> CostRecord list \<times> (exn + CostRecord)" where
  "calculate_cost fl now session_costs mdl n_in n_out =
     (case map_of (OPENAI_PRICING fl) mdl of
        None \<Rightarrow>
          (session_costs,
           Inl (Exn ValueError (''Model '' @ [CHR 0x27] @ mdl @ [CHR 0x27]
                                @ '' not found in pricing table'')))
      | Some p \<Rightarrow>
          (case int_truediv fl n_in 1000000 of
             Inl e \<Rightarrow> (session_costs, Inl e)
           | Inr q_in \<Rightarrow>
               (let in_cost = fmul fl q_in (Finite (input_price_per_1m p))
                in case int_truediv fl n_out 1000000 of
                     Inl e \<Rightarrow> (session_costs, Inl e)
                   | Inr q_out \<Rightarrow>
                       (let out_cost = fmul fl q_out (Finite (output_price_per_1m p));
                            tot_cost = fadd fl in_cost out_cost
                        in case py_round fl in_cost 6 of
                             Inl e \<Rightarrow> (session_costs, Inl e)
                           | Inr r_in \<Rightarrow>
                               (case py_round fl out_cost 6 of
                                  Inl e \<Rightarrow> (session_costs, Inl e)
                                | Inr r_out \<Rightarrow>
                                    (case py_round fl tot_cost 6 of
                                       Inl e \<Rightarrow> (session_costs, Inl e)
                                     | Inr r_tot \<Rightarrow>
                                         (let cost_record =
                                                \<lparr> model = mdl,
                                                  input_tokens = n_in,
                                                  output_tokens = n_out,
                                                  input_cost = r_in,
                                                  output_cost = r_out,
                                                  total_cost = r_tot,
                                                  timestamp = now \<rparr>
                                          in (session_costs @ [cost_record],
                                              Inr cost_record))))))))"

section \<open>Predicates and sample environments of the properties\<close>

fun returns_error :: "string list \<times> (exn + pyval) \<Rightarrow> bool" where
  "returns_error (out, Inr v) = error_prefixed v"
| "returns_error (out, Inl e) = False"

text \<open>The status codes \<^verbatim>\<open>raise_for_status\<close> turns into an exception.\<close>

definition rejected :: "response \<Rightarrow> bool" where
  "rejected r = (400 \<le> status_code r \<and> status_code r < 600)"

text \<open>A 2xx response whose body decodes to a JSON object without the key \<^verbatim>\<open>message\<close>.\<close>

definition ok_without_message :: "exn + response \<Rightarrow> bool" where
  "ok_without_message x =
     (case x of
        Inl e \<Rightarrow> False
      | Inr r \<Rightarrow>
          200 \<le> status_code r \<and> status_code r < 300 \<and>
          (case json_result r of
             Inl e \<Rightarrow> False
           | Inr v \<Rightarrow> is_dict v \<and> map_of (items v) ''message'' = None))"

text \<open>The agent ids a driver hands to the client.\<close>

fun agent_ids :: "client_call list \<Rightarrow> string list" where
  "agent_ids [] = []"
| "agent_ids (GetAgent a # cs) = a # agent_ids cs"
| "agent_ids (RunsCreateAndProcess th a # cs) = a # agent_ids cs"
| "agent_ids (c # cs) = agent_ids cs"

text \<open>
  A turn on which the message is stored, the run ends with status \<^verbatim>\<open>failed\<close>
  and the thread holds no agent message.
\<close>

definition t_failed :: turn where
  "t_failed =
     \<lparr> messages_create = None,
       create_and_process = Inr \<lparr> run_status = ''failed'',
                                  run_last_error = ''rate_limit_exceeded'' \<rparr>,
       get_last_message_text = Inr None \<rparr>"


fun subscript_path :: "pyval \<Rightarrow> string list \<Rightarrow> pyval" where
  "subscript_path v [] = v"
| "subscript_path v (k # ks) = subscript_path (subscript v k) ks"

text \<open>
  Answers of \<^verbatim>\<open>client.vector_stores.get(i)\<close>: the store \<open>i\<close> still being
  processed, and a store whose processing failed.
\<close>

definition pending :: "exn + vector_store \<Rightarrow> string \<Rightarrow> bool" where
  "pending x i =
     (case x of
        Inl e \<Rightarrow> False
      | Inr vs \<Rightarrow> vs_id vs = i \<and> vs_status vs \<noteq> ''completed'' \<and> vs_status vs \<noteq> ''failed'')"

definition failed :: "exn + vector_store \<Rightarrow> bool" where
  "failed x = (case x of Inl e \<Rightarrow> False | Inr vs \<Rightarrow> vs_status vs = ''failed'')"

text \<open>
  A service whose store never leaves \<^verbatim>\<open>in_progress\<close>, and one whose store
  fails at the fourth poll.
\<close>

definition client_stuck :: vs_client where
  "client_stuck =
     \<lparr> files_upload = (\<lambda>path. Inr ''file_1''),
       vector_stores_create = (\<lambda>name ids. Inr \<lparr> vs_id = ''vs_1'', vs_status = ''in_progress'' \<rparr>),
       vector_stores_get = (\<lambda>k i. Inr \<lparr> vs_id = i, vs_status = ''in_progress'' \<rparr>) \<rparr>"

definition client_failing :: vs_client where
  "client_failing =
     \<lparr> files_upload = (\<lambda>path. Inr ''file_1''),
       vector_stores_create = (\<lambda>name ids. Inr \<lparr> vs_id = ''vs_1'', vs_status = ''in_progress'' \<rparr>),
       vector_stores_get =
         (\<lambda>k i. Inr \<lparr> vs_id = i, vs_status = (if k < 3 then ''in_progress'' else ''failed'') \<rparr>) \<rparr>"

definition upload_prelude :: "string \<Rightarrow> string \<Rightarrow> string list" where
  "upload_prelude file_id store_id =
     [print_line (nl @ outbox_tray @ '' Uploading FAQ file to vector store...''),
      print_line (check_mark @ '' File uploaded with ID: '' @ file_id),
      print_line (check_mark @ '' Vector store created with ID: '' @ store_id),
      print_line (check_mark @ '' Processing file in vector store...'')]"

definition pricing_keys :: "(rat \<Rightarrow> rat) \<Rightarrow> string list" where
  "pricing_keys fl = map fst (OPENAI_PRICING fl)"

section \<open>Auxiliary lemmas\<close>

lemma raise_for_status_rejected: "rejected r \<Longrightarrow> \<exists>e. raise_for_status r = Some e"
  by (auto simp add: rejected_def raise_for_status_def)

lemma raise_for_status_accepted: "\<not> rejected r \<Longrightarrow> raise_for_status r = None"
  by (auto simp add: rejected_def raise_for_status_def)

lemma py_get_not_dict: "\<not> is_dict v \<Longrightarrow> \<exists>e. py_get v k dflt = Inl e"
  by (cases v) simp_all

lemma post_and_get_default:
  assumes "ok_without_message (post rq)"
  shows "post_and_get post rq ''message'' dflt = Inr dflt"
proof -
  from assms obtain r where r: "post rq = Inr r"
    by (cases "post rq") (simp_all add: ok_without_message_def)
  with assms have st: "200 \<le> status_code r" "status_code r < 300"
    by (simp_all add: ok_without_message_def)
  from assms r obtain v where v: "json_result r = Inr v"
    by (cases "json_result r") (simp_all add: ok_without_message_def)
  with assms r have d: "is_dict v" "map_of (items v) ''message'' = None"
    by (simp_all add: ok_without_message_def)
  then obtain kvs where kvs: "v = PDict kvs" by (cases v) simp_all
  with d have "py_get v ''message'' dflt = Inr dflt" by simp
  with r st v show ?thesis by (simp add: post_and_get_def raise_for_status_def)
qed

lemma agent_ids_append: "agent_ids (xs @ ys) = agent_ids xs @ agent_ids ys"
  by (induction xs rule: agent_ids.induct) simp_all

lemma chat_iteration_agent_ids:
  "set (agent_ids (calls (chat_iteration t th ag line))) \<subseteq> {ag}"
  by (simp add: chat_iteration_def split: option.splits sum.splits)

lemma drive_agent_ids:
  assumes "\<And>t line. set (agent_ids (calls (body t line))) \<subseteq> {ag}"
  shows "set (agent_ids (fst (snd (drive body prompt turns)))) \<subseteq> {ag}"
proof (induction turns)
  case Nil
  show ?case by simp
next
  case (Cons p turns)
  obtain line t where p: "p = (line, t)" by (cases p)
  obtain out cs r where d: "drive body prompt turns = (out, cs, r)"
    by (cases "drive body prompt turns")
  from Cons d have "set (agent_ids cs) \<subseteq> {ag}" by simp
  with assms[of t line] show ?case
    by (cases "ctl (body t line)") (auto simp add: p d Let_def agent_ids_append)
qed

lemma run_chat_interface_agent_ids:
  "set (agent_ids (snd (run_chat_interface client turns ag))) = {ag}"
proof -
  have sub: "\<And>th. set (agent_ids (fst (snd (chat_loop th ag turns)))) \<subseteq> {ag}"
    unfolding chat_loop_def by (rule drive_agent_ids) (rule chat_iteration_agent_ids)
  show ?thesis
  proof (cases "get_agent client ag")
    case (Inl e)
    then show ?thesis by (simp add: run_chat_interface_def chat_handler_def)
  next
    case (Inr a)
    show ?thesis
    proof (cases "threads_create client")
      case (Inl e)
      with Inr show ?thesis by (simp add: run_chat_interface_def chat_handler_def Let_def)
    next
      case (Inr th)
      obtain out cs r where d: "chat_loop th ag turns = (out, cs, r)"
        by (cases "chat_loop th ag turns")
      from sub[of th] d have "set (agent_ids cs) \<subseteq> {ag}" by simp
      with \<open>get_agent client ag = Inr a\<close> Inr d show ?thesis
        by (cases r) (auto simp add: run_chat_interface_def chat_handler_def Let_def)
    qed
  qed
qed

text \<open>
  While every poll finds the store still being processed, the loop started with
  \<open>j\<close> polls left prints \<open>j\<close> dots and hands back a store with the same id.
\<close>

lemma wait_loop_pending:
  assumes "\<forall>k<30. pending (vector_stores_get client k i) i"
  shows "2 * j \<le> 60 \<Longrightarrow> vs_id vs = i \<Longrightarrow>
         \<exists>vs'. wait_loop client (60 - 2 * j) vs = (replicate j ''.'', Inr vs') \<and> vs_id vs' = i"
proof (induction j arbitrary: vs)
  case 0
  then show ?case by (simp add: max_wait_def)
next
  case (Suc j)
  let ?el = "60 - 2 * Suc j"
  have lt: "?el < max_wait" using Suc.prems by (simp add: max_wait_def)
  have k: "?el div 2 < 30" using Suc.prems by simp
  with assms have p: "pending (vector_stores_get client (?el div 2) i) i" by blast
  then obtain v where v: "vector_stores_get client (?el div 2) i = Inr v" "vs_id v = i"
     "vs_status v \<noteq> ''completed''" "vs_status v \<noteq> ''failed''"
    by (cases "vector_stores_get client (?el div 2) i") (simp_all add: pending_def)
  have el: "?el + 2 = 60 - 2 * j" using Suc.prems by simp
  from Suc.IH[of v] Suc.prems v obtain vs' where
    ih: "wait_loop client (60 - 2 * j) v = (replicate j ''.'', Inr vs')" "vs_id vs' = i"
    by auto
  have "wait_loop client ?el vs = (''.'' # replicate j ''.'', Inr vs')"
    apply (subst wait_loop.simps)
    using lt v Suc.prems(2) ih el by simp
  with ih show ?case by simp
qed

text \<open>
  When poll \<open>n\<close> is the first to find the store failed, the loop started \<open>j\<close> polls
  earlier prints \<open>j\<close> dots and raises.
\<close>

lemma wait_loop_failed:
  assumes "\<forall>k<n. pending (vector_stores_get client k i) i"
    and "failed (vector_stores_get client n i)" and "n < 30"
  shows "j \<le> n \<Longrightarrow> vs_id vs = i \<Longrightarrow>
         wait_loop client (2 * (n - j)) vs =
           (replicate j ''.'', Inl (Exn OtherException ''Vector store processing failed''))"
proof (induction j arbitrary: vs)
  case 0
  from assms(2) obtain v where v: "vector_stores_get client n i = Inr v" "vs_status v = ''failed''"
    by (cases "vector_stores_get client n i") (simp_all add: failed_def)
  have "2 * n < max_wait" using assms(3) by (simp add: max_wait_def)
  then show ?case
    apply (subst wait_loop.simps)
    using v 0 by simp
next
  case (Suc j)
  let ?el = "2 * (n - Suc j)"
  have lt: "?el < max_wait" using Suc.prems assms(3) by (simp add: max_wait_def)
  have k: "?el div 2 < n" using Suc.prems by simp
  with assms(1) have p: "pending (vector_stores_get client (?el div 2) i) i" by blast
  then obtain v where v: "vector_stores_get client (?el div 2) i = Inr v" "vs_id v = i"
     "vs_status v \<noteq> ''completed''" "vs_status v \<noteq> ''failed''"
    by (cases "vector_stores_get client (?el div 2) i") (simp_all add: pending_def)
  have el: "?el + 2 = 2 * (n - j)" using Suc.prems by simp
  from Suc.IH[of v] Suc.prems v have
    ih: "wait_loop client (2 * (n - j)) v =
           (replicate j ''.'', Inl (Exn OtherException ''Vector store processing failed''))"
    by auto
  show ?case
    apply (subst wait_loop.simps)
    using lt v Suc.prems(2) ih el by simp
qed

lemma map_of_pricing_None:
  "(map_of (OPENAI_PRICING fl) m = None) = (m \<notin> set (pricing_keys fl))"
  by (simp add: pricing_keys_def map_of_eq_None_iff)

section \<open>The backend tools\<close>

text \<open>
  No exception leaves a tool (the half of claim C2 that holds). For every configuration, every argument and every behaviour
  of the transport (an exception of any class from \<^verbatim>\<open>requests.post\<close>, any status
  code, a body that does not decode, any decoded JSON value), each of the three
  tools returns a value: no exception leaves the function.
\<close>

theorem tools_never_raise:
  "(\<exists>out v. generate_quote_id cfg post = (out, Inr v)) \<and>
   (\<exists>out v. send_email_notification cfg post to_email quote_id full_name = (out, Inr v)) \<and>
   (\<exists>out v. update_cosmos_db cfg post quote_id full_name email phone_number age location
              = (out, Inr v))"
  by (simp add: generate_quote_id_def send_email_notification_def update_cosmos_db_def
           split: sum.splits)

text \<open>
  Claim C2 fails on the other half: the value returned is not always a string. When the backend
  answers 200 with a JSON object whose \<^verbatim>\<open>quote_id\<close> or \<^verbatim>\<open>message\<close> field is not
  a string, \<^verbatim>\<open>result.get\<close> hands that value back unchanged: the integer 42,
  \<^verbatim>\<open>None\<close>, an empty list.
\<close>

theorem tools_return_non_string:
  "generate_quote_id cfg0 (answer 200 ''OK'' (Inr (PDict [(''quote_id'', PInt 42)])))
     = ([], Inr (PInt 42)) \<and>
   \<not> is_str (PInt 42) \<and>
   send_email_notification cfg0 (answer 200 ''OK'' (Inr (PDict [(''message'', PNone)])))
       ''a@b.c'' ''q1'' ''Ann''
     = ([], Inr PNone) \<and>
   \<not> is_str PNone \<and>
   update_cosmos_db cfg0 (answer 200 ''OK'' (Inr (PDict [(''message'', PList [])])))
       ''q1'' ''Ann'' ''a@b.c'' ''555'' 30 ''Pune''
     = ([], Inr (PList [])) \<and>
   \<not> is_str (PList [])"
  by (simp add: generate_quote_id_def send_email_notification_def update_cosmos_db_def
        post_and_get_def answer_def raise_for_status_def)

text \<open>
  Claim C3 as stated fails: a response that passes \<^verbatim>\<open>raise_for_status\<close> and
  decodes to a JSON object without the field \<^verbatim>\<open>quote_id\<close> makes
  \<open>generate_quote_id\<close> return the empty string, which does not start with
  \<^verbatim>\<open>Error: \<close>.
\<close>

theorem generate_quote_id_missing_field_counterexample:
  "generate_quote_id cfg0 (answer 200 ''OK'' (Inr (PDict []))) = ([], Inr (PStr [])) \<and>
   \<not> returns_error (generate_quote_id cfg0 (answer 200 ''OK'' (Inr (PDict []))))"
  by (simp add: generate_quote_id_def post_and_get_def answer_def raise_for_status_def)

text \<open>
  Claim C3, amended. \<open>generate_quote_id\<close> returns a string that starts with
  \<^verbatim>\<open>Error: \<close> whenever \<^verbatim>\<open>requests.post\<close> raises (a timeout, a network error),
  the status code lies in 400 to 599, the body does not decode, or the decoded value
  is not a JSON object; in the first and third case the string is
  \<^verbatim>\<open>Error: Could not generate quote ID. \<close> followed by the exception's text. For a
  response that passes and decodes to an object without \<^verbatim>\<open>quote_id\<close> the result
  is the empty string.
\<close>

theorem generate_quote_id_failure_strings:
  "(post (generate_quote_id_request cfg) = Inl e \<longrightarrow>
      generate_quote_id cfg post =
        ([], Inr (PStr (''Error: Could not generate quote ID. '' @ exn_msg e)))) \<and>
   (post (generate_quote_id_request cfg) = Inr r \<and> rejected r \<longrightarrow>
      returns_error (generate_quote_id cfg post)) \<and>
   (post (generate_quote_id_request cfg) = Inr r \<and> \<not> rejected r \<and> json_result r = Inl e \<longrightarrow>
      generate_quote_id cfg post =
        ([], Inr (PStr (''Error: Could not generate quote ID. '' @ exn_msg e)))) \<and>
   (post (generate_quote_id_request cfg) = Inr r \<and> \<not> rejected r \<and> json_result r = Inr v
      \<and> \<not> is_dict v \<longrightarrow>
      returns_error (generate_quote_id cfg post)) \<and>
   (post (generate_quote_id_request cfg) = Inr r \<and> \<not> rejected r \<and> json_result r = Inr (PDict d)
      \<and> map_of d ''quote_id'' = None \<longrightarrow>
      generate_quote_id cfg post = ([], Inr (PStr [])))"
proof (intro conjI impI)
  assume "post (generate_quote_id_request cfg) = Inl e"
  then show "generate_quote_id cfg post =
        ([], Inr (PStr (''Error: Could not generate quote ID. '' @ exn_msg e)))"
    by (simp add: generate_quote_id_def post_and_get_def)
next
  assume a: "post (generate_quote_id_request cfg) = Inr r \<and> rejected r"
  then obtain x where "raise_for_status r = Some x" using raise_for_status_rejected by blast
  with a show "returns_error (generate_quote_id cfg post)"
    by (simp add: generate_quote_id_def post_and_get_def)
next
  assume "post (generate_quote_id_request cfg) = Inr r \<and> \<not> rejected r \<and> json_result r = Inl e"
  then show "generate_quote_id cfg post =
        ([], Inr (PStr (''Error: Could not generate quote ID. '' @ exn_msg e)))"
    by (simp add: generate_quote_id_def post_and_get_def raise_for_status_accepted)
next
  assume a: "post (generate_quote_id_request cfg) = Inr r \<and> \<not> rejected r
      \<and> json_result r = Inr v \<and> \<not> is_dict v"
  then obtain x where "py_get v ''quote_id'' (PStr []) = Inl x" using py_get_not_dict by blast
  with a show "returns_error (generate_quote_id cfg post)"
    by (simp add: generate_quote_id_def post_and_get_def raise_for_status_accepted)
next
  assume "post (generate_quote_id_request cfg) = Inr r \<and> \<not> rejected r
      \<and> json_result r = Inr (PDict d) \<and> map_of d ''quote_id'' = None"
  then show "generate_quote_id cfg post = ([], Inr (PStr []))"
    by (simp add: generate_quote_id_def post_and_get_def raise_for_status_accepted)
qed

text \<open>
  The five cases at work: a timeout, a 404, a body that is not JSON, a JSON list, and
  an object without the field.
\<close>

theorem generate_quote_id_failure_strings_witness:
  "generate_quote_id cfg0 (\<lambda>rq. Inl (Exn Timeout ''Read timed out.''))
     = ([], Inr (PStr ''Error: Could not generate quote ID. Read timed out.'')) \<and>
   returns_error (generate_quote_id cfg0 (answer 404 ''Not Found'' (Inr (PDict [])))) \<and>
   generate_quote_id cfg0 (answer 200 ''OK'' (Inl (Exn RequestException ''Expecting value'')))
     = ([], Inr (PStr ''Error: Could not generate quote ID. Expecting value'')) \<and>
   returns_error (generate_quote_id cfg0 (answer 200 ''OK'' (Inr (PList [])))) \<and>
   generate_quote_id cfg0 (answer 200 ''OK'' (Inr (PDict [(''id'', PStr ''x'')])))
     = ([], Inr (PStr []))"
proof -
  let ?rq = "generate_quote_id_request cfg0"
  let ?r = "\<lambda>code rsn body. \<lparr> status_code = code, reason = rsn, resp_url = req_url ?rq,
                              json_result = body \<rparr>"
  have c1: "generate_quote_id cfg0 (\<lambda>rq. Inl (Exn Timeout ''Read timed out.''))
     = ([], Inr (PStr ''Error: Could not generate quote ID. Read timed out.''))"
    using generate_quote_id_failure_strings
            [of "\<lambda>rq. Inl (Exn Timeout ''Read timed out.'')" cfg0 "Exn Timeout ''Read timed out.''"]
    by simp
  have c2: "returns_error (generate_quote_id cfg0 (answer 404 ''Not Found'' (Inr (PDict []))))"
    using generate_quote_id_failure_strings
            [of "answer 404 ''Not Found'' (Inr (PDict []))" cfg0 _ "?r 404 ''Not Found'' (Inr (PDict []))"]
    by (simp add: answer_def rejected_def)
  have c3: "generate_quote_id cfg0 (answer 200 ''OK'' (Inl (Exn RequestException ''Expecting value'')))
     = ([], Inr (PStr ''Error: Could not generate quote ID. Expecting value''))"
    using generate_quote_id_failure_strings
            [of "answer 200 ''OK'' (Inl (Exn RequestException ''Expecting value''))" cfg0
                "Exn RequestException ''Expecting value''"
                "?r 200 ''OK'' (Inl (Exn RequestException ''Expecting value''))"]
    by (simp add: answer_def rejected_def)
  have c4: "returns_error (generate_quote_id cfg0 (answer 200 ''OK'' (Inr (PList []))))"
    using generate_quote_id_failure_strings
            [of "answer 200 ''OK'' (Inr (PList []))" cfg0 _ "?r 200 ''OK'' (Inr (PList []))" "PList []"]
    by (simp add: answer_def rejected_def)
  have c5: "generate_quote_id cfg0 (answer 200 ''OK'' (Inr (PDict [(''id'', PStr ''x'')])))
     = ([], Inr (PStr []))"
    using generate_quote_id_failure_strings
            [of "answer 200 ''OK'' (Inr (PDict [(''id'', PStr ''x'')]))" cfg0 _
                "?r 200 ''OK'' (Inr (PDict [(''id'', PStr ''x'')]))" _ "[(''id'', PStr ''x'')]"]
    by (simp add: answer_def rejected_def)
  from c1 c2 c3 c4 c5 show ?thesis by blast
qed

text \<open>
  Claim C8. When the backend answers with a 2xx status and a JSON object that has no
  \<^verbatim>\<open>message\<close> key, \<open>update_cosmos_db\<close> returns the string
  \<^verbatim>\<open>Success: Lead information has been saved to the database.\<close> and
  \<open>send_email_notification\<close> returns \<^verbatim>\<open>Success: Email notification sent.\<close>: both
  are the defaults written in the source, not text of the backend.
\<close>

theorem missing_message_gives_local_success:
  "(ok_without_message
      (post (update_cosmos_db_request cfg quote_id full_name email phone_number age location)) \<longrightarrow>
      update_cosmos_db cfg post quote_id full_name email phone_number age location =
        ([], Inr (PStr ''Success: Lead information has been saved to the database.''))) \<and>
   (ok_without_message (post (send_email_request cfg to_email quote_id full_name)) \<longrightarrow>
      send_email_notification cfg post to_email quote_id full_name =
        ([], Inr (PStr ''Success: Email notification sent.'')))"
  by (simp add: update_cosmos_db_def send_email_notification_def post_and_get_default)

theorem missing_message_gives_local_success_witness:
  "ok_without_message (answer 200 ''OK'' (Inr (PDict [(''status'', PStr ''ok'')]))
      (update_cosmos_db_request cfg0 ''q1'' ''Ann'' ''a@b.c'' ''555'' 30 ''Pune'')) \<and>
   update_cosmos_db cfg0 (answer 200 ''OK'' (Inr (PDict [(''status'', PStr ''ok'')])))
       ''q1'' ''Ann'' ''a@b.c'' ''555'' 30 ''Pune''
     = ([], Inr (PStr ''Success: Lead information has been saved to the database.'')) \<and>
   ok_without_message (answer 200 ''OK'' (Inr (PDict [(''status'', PStr ''ok'')]))
      (send_email_request cfg0 ''a@b.c'' ''q1'' ''Ann'')) \<and>
   send_email_notification cfg0 (answer 200 ''OK'' (Inr (PDict [(''status'', PStr ''ok'')])))
       ''a@b.c'' ''q1'' ''Ann''
     = ([], Inr (PStr ''Success: Email notification sent.''))"
proof -
  let ?post = "answer 200 ''OK'' (Inr (PDict [(''status'', PStr ''ok'')]))"
  have h1: "ok_without_message
              (?post (update_cosmos_db_request cfg0 ''q1'' ''Ann'' ''a@b.c'' ''555'' 30 ''Pune''))"
    by (simp add: ok_without_message_def answer_def)
  have h2: "ok_without_message (?post (send_email_request cfg0 ''a@b.c'' ''q1'' ''Ann''))"
    by (simp add: ok_without_message_def answer_def)
  from missing_message_gives_local_success
         [of ?post cfg0 "''q1''" "''Ann''" "''a@b.c''" "''555''" 30 "''Pune''" "''a@b.c''"] h1 h2
  show ?thesis by simp
qed

section \<open>The conversation drivers\<close>

text \<open>
  Claim C4 fails on the loop of \<^verbatim>\<open>lead_processing.py\<close>. On a turn whose run ends
  with status \<^verbatim>\<open>failed\<close> and leaves no agent message, that loop prints nothing
  and goes on to the next prompt, while the loop of
  \<^verbatim>\<open>chat_with_lead_processing_agent.py\<close> prints the stored error. The first loop
  never reads the run at all: any two runs give the same pass through its body.
\<close>

theorem lp_iteration_silent_on_failed_run:
  "lp_iteration t_failed ''thread_1'' ''asst_1'' ''hello'' =
     \<lparr> printed = [],
       calls = [MessagesCreate ''thread_1'' ''hello'',
                RunsCreateAndProcess ''thread_1'' ''asst_1'',
                GetLastMessageText ''thread_1''],
       ctl = Continue \<rparr> \<and>
   printed (chat_iteration t_failed ''thread_1'' ''asst_1'' ''hello'') =
     [nl @ ''Agent: '',
      print_line (''No response from agent.'' @ nl),
      print_line (warning_sign @ '' Run failed: rate_limit_exceeded'' @ nl)] \<and>
   lp_iteration (t\<lparr>create_and_process := Inr r1\<rparr>) th ag line =
     lp_iteration (t\<lparr>create_and_process := Inr r2\<rparr>) th ag line"
proof -
  have "lower ''hello'' \<noteq> ''quit''" by code_simp
  moreover have "strip ''hello'' \<noteq> []" by code_simp
  ultimately show ?thesis
    by (simp add: lp_iteration_def chat_iteration_def t_failed_def
             split: option.splits sum.splits)
qed




text \<open>
  Claim C7. Whatever \<^verbatim>\<open>os.getenv("AGENT_ID")\<close> returns, the entry point of the
  chat script runs \<open>run_chat_interface\<close> with the constant
  \<^verbatim>\<open>asst_xS4WzzjvAasllgAnOYPiWFe2\<close>: the value read from the environment does
  not change the outcome, and the constant is the one agent id that reaches the
  client, in \<^verbatim>\<open>get_agent\<close> and in every run.
\<close>

theorem chat_main_uses_hardcoded_agent_id:
  "chat_main getenv client turns =
     run_chat_interface client turns ''asst_xS4WzzjvAasllgAnOYPiWFe2'' \<and>
   chat_main getenv client turns = chat_main getenv' client turns \<and>
   set (agent_ids (snd (chat_main getenv client turns))) = {''asst_xS4WzzjvAasllgAnOYPiWFe2''}"
  using run_chat_interface_agent_ids [of client turns AGENT_ID]
  by (simp add: chat_main_def AGENT_ID_def)

section \<open>The declaration of the quote-id endpoint\<close>

text \<open>
  Claim C5 fails on the declaration. \<open>generate_quote_id\<close> sends a POST to the base
  URL followed by \<^verbatim>\<open>/generate-quote-id?code=\<close> and the token, and reads
  \<^verbatim>\<open>quote_id\<close> from the decoded body; \<^verbatim>\<open>openapi_spec\<close> declares the same
  operation under the path \<^verbatim>\<open>/api/generate-quote-id\<close> with the method
  \<^verbatim>\<open>get\<close> (the two other operations are declared \<^verbatim>\<open>post\<close>), with the
  query parameter \<^verbatim>\<open>code\<close> and a \<^verbatim>\<open>quote_id\<close> of type string in the answer.
\<close>

theorem quote_id_endpoint_declared_get:
  "req_method (generate_quote_id_request cfg) = ''POST'' \<and>
   req_url (generate_quote_id_request cfg) =
     fmt_env (AZURE_FUNCTION_BASE_URL cfg) @ ''/generate-quote-id?code=''
       @ fmt_env (AZURE_FUNCTION_CODE cfg) \<and>
   declared_operations (openapi_spec b c) =
     [(''/api/generate-quote-id'', ''get'', PStr ''generate_quote_id''),
      (''/api/leads'', ''post'', PStr ''process_lead''),
      (''/api/send-email'', ''post'', PStr ''send_email_notification'')] \<and>
   subscript_path (openapi_spec b c) [''paths'', ''/api/generate-quote-id'', ''get'', ''parameters''] =
     PList [PDict [(''name'', PStr ''code''), (''in'', PStr ''query''), (''required'', PBool True),
                   (''schema'', PDict [(''type'', PStr ''string''), (''default'', env_val c)]),
                   (''description'', PStr ''Azure Function authorization code'')]] \<and>
   subscript_path (openapi_spec b c)
     [''paths'', ''/api/generate-quote-id'', ''get'', ''responses'', ''200'', ''content'',
      ''application/json'', ''schema'', ''properties'', ''quote_id'', ''type''] = PStr ''string''"
  by (simp add: generate_quote_id_request_def declared_operations_def openapi_spec_def)

section \<open>Waiting for the vector store\<close>

text \<open>
  Claim C9. After a successful upload and creation of the store:
  if some poll before the thirtieth is the first to find the status \<^verbatim>\<open>failed\<close>,
  the earlier ones finding the store neither completed nor failed,
  \<open>upload_faq_to_vector_store\<close> raises the exception
  \<^verbatim>\<open>Vector store processing failed\<close>;
  if all thirty polls (60 counted seconds, 2 per poll) find the store neither
  completed nor failed, it returns the id of the store with no exception, and all it
  has printed is the four progress lines and thirty dots: the outcome has the shape
  of a success and nothing says that processing is unfinished.
\<close>

theorem upload_faq_failed_raises_unfinished_returns:
  assumes "files_upload client path = Inr file_id"
    and "vector_stores_create client ''Life Insurance FAQ Knowledge Base'' [file_id] = Inr vs0"
  shows "(n < 30 \<and> (\<forall>k<n. pending (vector_stores_get client k (vs_id vs0)) (vs_id vs0))
            \<and> failed (vector_stores_get client n (vs_id vs0)) \<longrightarrow>
          snd (upload_faq_to_vector_store client path) =
            Inl (Exn OtherException ''Vector store processing failed'')) \<and>
         ((\<forall>k<30. pending (vector_stores_get client k (vs_id vs0)) (vs_id vs0)) \<longrightarrow>
          upload_faq_to_vector_store client path =
            (upload_prelude file_id (vs_id vs0) @ replicate 30 ''.'', Inr (vs_id vs0)))"
proof (intro conjI impI)
  assume a: "n < 30 \<and> (\<forall>k<n. pending (vector_stores_get client k (vs_id vs0)) (vs_id vs0))
            \<and> failed (vector_stores_get client n (vs_id vs0))"
  then have "wait_loop client (2 * (n - n)) vs0 =
               (replicate n ''.'', Inl (Exn OtherException ''Vector store processing failed''))"
    by (intro wait_loop_failed [where i = "vs_id vs0"]) simp_all
  then have "wait_loop client 0 vs0 =
               (replicate n ''.'', Inl (Exn OtherException ''Vector store processing failed''))"
    by simp
  with assms show "snd (upload_faq_to_vector_store client path) =
            Inl (Exn OtherException ''Vector store processing failed'')"
    by (simp add: upload_faq_to_vector_store_def upload_handler_def Let_def)
next
  assume a: "\<forall>k<30. pending (vector_stores_get client k (vs_id vs0)) (vs_id vs0)"
  have "\<exists>vs'. wait_loop client (60 - 2 * 30) vs0 = (replicate 30 ''.'', Inr vs')
              \<and> vs_id vs' = vs_id vs0"
    using a by (intro wait_loop_pending) simp_all
  then obtain vs' where "wait_loop client 0 vs0 = (replicate 30 ''.'', Inr vs')"
      "vs_id vs' = vs_id vs0"
    by auto
  with assms show "upload_faq_to_vector_store client path =
            (upload_prelude file_id (vs_id vs0) @ replicate 30 ''.'', Inr (vs_id vs0))"
    by (simp add: upload_faq_to_vector_store_def upload_prelude_def Let_def)
qed

theorem upload_faq_failed_raises_unfinished_returns_witness:
  "snd (upload_faq_to_vector_store client_failing ''faq.json'') =
     Inl (Exn OtherException ''Vector store processing failed'') \<and>
   upload_faq_to_vector_store client_stuck ''faq.json'' =
     (upload_prelude ''file_1'' ''vs_1'' @ replicate 30 ''.'', Inr ''vs_1'')"
proof -
  let ?vs0 = "\<lparr> vs_id = ''vs_1'', vs_status = ''in_progress'' \<rparr>"
  have f: "(3::nat) < 30
           \<and> (\<forall>k<3. pending (vector_stores_get client_failing k (vs_id ?vs0)) (vs_id ?vs0))
           \<and> failed (vector_stores_get client_failing 3 (vs_id ?vs0))"
    by (simp add: client_failing_def pending_def failed_def)
  have s: "\<forall>k<30. pending (vector_stores_get client_stuck k (vs_id ?vs0)) (vs_id ?vs0)"
    by (simp add: client_stuck_def pending_def)
  have "snd (upload_faq_to_vector_store client_failing ''faq.json'') =
          Inl (Exn OtherException ''Vector store processing failed'')"
    using upload_faq_failed_raises_unfinished_returns
            [of client_failing "''faq.json''" "''file_1''" ?vs0 3] f
    by (simp add: client_failing_def)
  moreover have "upload_faq_to_vector_store client_stuck ''faq.json'' =
          (upload_prelude ''file_1'' ''vs_1'' @ replicate 30 ''.'', Inr ''vs_1'')"
    using upload_faq_failed_raises_unfinished_returns
            [of client_stuck "''faq.json''" "''file_1''" ?vs0 0] s
    by (simp add: client_stuck_def)
  ultimately show ?thesis by blast
qed

section \<open>The cost calculator\<close>

lemma round_half_even_near: "\<bar>of_int (round_half_even z) - z\<bar> \<le> 1"
proof -
  have "of_int \<lfloor>z\<rfloor> \<le> z" "z < of_int \<lfloor>z\<rfloor> + 1" by linarith+
  then show ?thesis by (auto simp add: round_half_even_def Let_def)
qed

lemma decimals_near: "\<bar>decimals n x\<bar> \<le> \<bar>x\<bar> + 1"
proof -
  let ?t = "(10::rat) ^ n"
  have t: "1 \<le> ?t" by simp
  then have t0: "0 < ?t" by linarith
  have "\<bar>of_int (round_half_even (x * ?t))\<bar> \<le> \<bar>x * ?t\<bar> + 1"
    using round_half_even_near [of "x * ?t"] by linarith
  also have "\<dots> \<le> \<bar>x\<bar> * ?t + ?t" using t by (simp add: abs_mult)
  finally have "\<bar>of_int (round_half_even (x * ?t))\<bar> / ?t \<le> (\<bar>x\<bar> * ?t + ?t) / ?t"
    using t0 by (simp add: divide_right_mono)
  also have "\<dots> = \<bar>x\<bar> + 1" using t0 by (simp add: field_simps)
  finally show ?thesis using t0 by (simp add: decimals_def)
qed

lemma to_double_finite: "\<bar>x\<bar> < dbl_overflow \<Longrightarrow> to_double fl x = Finite (fl x)"
  by (auto simp add: to_double_def)

lemma py_round_finite:
  "\<bar>x\<bar> + 1 < dbl_overflow \<Longrightarrow> py_round fl (Finite x) n = Inr (Finite (fl (decimals n x)))"
  using decimals_near [of n x] by (simp add: Let_def)

lemma big_below_overflow: "(10::rat) ^ 300 < dbl_overflow"
  by (simp add: dbl_overflow_def)

lemma abs_mult_le:
  fixes a p :: rat
  shows "\<bar>a\<bar> \<le> A \<Longrightarrow> \<bar>p\<bar> \<le> P \<Longrightarrow> \<bar>a * p\<bar> \<le> A * P"
  by (simp add: abs_mult mult_mono)

lemma fl_le:
  fixes fl :: "rat \<Rightarrow> rat"
  assumes "\<forall>x. \<bar>fl x\<bar> \<le> 2 * \<bar>x\<bar>" and "\<bar>x\<bar> \<le> c"
  shows "\<bar>fl x\<bar> \<le> 2 * c"
proof -
  from assms(1) have "\<bar>fl x\<bar> \<le> 2 * \<bar>x\<bar>" by blast
  with assms(2) show ?thesis by linarith
qed

text \<open>
  One cost line, \<^verbatim>\<open>(tokens / 1_000_000) * price\<close>, for a token count of
  magnitude at most \<open>10 ^ 300\<close>: nothing overflows.
\<close>

lemma cost_line_finite:
  assumes fl: "\<forall>x. \<bar>fl x\<bar> \<le> 2 * \<bar>x\<bar>"
    and n: "\<bar>n\<bar> \<le> 10 ^ 300"
    and pr: "\<bar>price\<bar> \<le> 120"
  shows "int_truediv fl n 1000000 = Inr (Finite (fl (of_int n / 1000000)))"
    and "fmul fl (Finite (fl (of_int n / 1000000))) (Finite price)
           = Finite (fl (fl (of_int n / 1000000) * price))"
    and "\<bar>fl (fl (of_int n / 1000000) * price)\<bar> \<le> 480 * 10 ^ 294"
proof -
  let ?q = "(of_int n :: rat) / 1000000"
  have "\<bar>of_int n :: rat\<bar> \<le> 10 ^ 300"
    using n by (metis of_int_abs of_int_le_iff of_int_numeral of_int_power)
  then have q: "\<bar>?q\<bar> \<le> 10 ^ 294" by simp
  have s: "(10::rat) ^ 300 = 1000000 * 10 ^ 294" by simp
  have B: "(0::rat) < 10 ^ 294" by simp
  from q s B big_below_overflow have "\<bar>?q\<bar> < dbl_overflow" by linarith
  then show "int_truediv fl n 1000000 = Inr (Finite (fl ?q))"
    by (simp add: int_truediv_def)
  from fl have "\<bar>fl ?q\<bar> \<le> 2 * \<bar>?q\<bar>" by blast
  with q have a: "\<bar>fl ?q\<bar> \<le> 2 * 10 ^ 294" by linarith
  from abs_mult_le [OF a pr] have m: "\<bar>fl ?q * price\<bar> \<le> 240 * 10 ^ 294" by simp
  with s B big_below_overflow have "\<bar>fl ?q * price\<bar> < dbl_overflow" by linarith
  then show "fmul fl (Finite (fl ?q)) (Finite price) = Finite (fl (fl ?q * price))"
    by (simp add: to_double_finite)
  from fl have "\<bar>fl (fl ?q * price)\<bar> \<le> 2 * \<bar>fl ?q * price\<bar>" by blast
  with m show "\<bar>fl (fl ?q * price)\<bar> \<le> 480 * 10 ^ 294" by linarith
qed

lemma pricing_bounded:
  assumes fl: "\<forall>x. \<bar>fl x\<bar> \<le> 2 * \<bar>x\<bar>"
    and p: "map_of (OPENAI_PRICING fl) m = Some p"
  shows "\<bar>input_price_per_1m p\<bar> \<le> 120 \<and> \<bar>output_price_per_1m p\<bar> \<le> 120"
proof -
  have b: "\<And>c. \<bar>c\<bar> \<le> 60 \<Longrightarrow> \<bar>fl c\<bar> \<le> 120"
  proof -
    fix c :: rat assume "\<bar>c\<bar> \<le> 60"
    moreover from fl have "\<bar>fl c\<bar> \<le> 2 * \<bar>c\<bar>" by blast
    ultimately show "\<bar>fl c\<bar> \<le> 120" by linarith
  qed
  from p show ?thesis
    by (auto simp add: OPENAI_PRICING_def b split: if_splits)
qed

lemma py_round_raises: "py_round fl x n = Inl e \<Longrightarrow> exn_cls e = OverflowError"
  by (cases x) (auto simp add: Let_def split: if_splits)

lemma int_truediv_raises: "int_truediv fl a b = Inl e \<Longrightarrow> exn_cls e \<noteq> ValueError"
  by (auto simp add: int_truediv_def split: if_splits)

lemma calculate_cost_in_range:
  assumes fl: "\<forall>x. \<bar>fl x\<bar> \<le> 2 * \<bar>x\<bar>"
    and p: "map_of (OPENAI_PRICING fl) m = Some p"
    and n_in: "\<bar>n_in\<bar> \<le> 10 ^ 300" and n_out: "\<bar>n_out\<bar> \<le> 10 ^ 300"
  shows "calculate_cost fl now session_costs m n_in n_out =
        (session_costs @
           [\<lparr> model = m, input_tokens = n_in, output_tokens = n_out,
              input_cost =
                Finite (fl (decimals 6 (fl (fl (of_int n_in / 1000000) * input_price_per_1m p)))),
              output_cost =
                Finite (fl (decimals 6 (fl (fl (of_int n_out / 1000000) * output_price_per_1m p)))),
              total_cost =
                Finite (fl (decimals 6
                  (fl (fl (fl (of_int n_in / 1000000) * input_price_per_1m p)
                       + fl (fl (of_int n_out / 1000000) * output_price_per_1m p))))),
              timestamp = now \<rparr>],
         Inr \<lparr> model = m, input_tokens = n_in, output_tokens = n_out,
              input_cost =
                Finite (fl (decimals 6 (fl (fl (of_int n_in / 1000000) * input_price_per_1m p)))),
              output_cost =
                Finite (fl (decimals 6 (fl (fl (of_int n_out / 1000000) * output_price_per_1m p)))),
              total_cost =
                Finite (fl (decimals 6
                  (fl (fl (fl (of_int n_in / 1000000) * input_price_per_1m p)
                       + fl (fl (of_int n_out / 1000000) * output_price_per_1m p))))),
              timestamp = now \<rparr>)"
proof -
  let ?ci = "fl (fl (of_int n_in / 1000000) * input_price_per_1m p)"
  let ?co = "fl (fl (of_int n_out / 1000000) * output_price_per_1m p)"
  from pricing_bounded [OF fl p]
  have pi: "\<bar>input_price_per_1m p\<bar> \<le> 120" and po: "\<bar>output_price_per_1m p\<bar> \<le> 120"
    by blast+
  note i = cost_line_finite [OF fl n_in pi]
  note out = cost_line_finite [OF fl n_out po]
  have s: "(10::rat) ^ 300 = 1000000 * 10 ^ 294" by simp
  have B: "(1::rat) \<le> 10 ^ 294" by simp
  have ri: "py_round fl (Finite ?ci) 6 = Inr (Finite (fl (decimals 6 ?ci)))"
    using i(3) s B big_below_overflow by (intro py_round_finite) linarith
  have ro: "py_round fl (Finite ?co) 6 = Inr (Finite (fl (decimals 6 ?co)))"
    using out(3) s B big_below_overflow by (intro py_round_finite) linarith
  have sum: "\<bar>?ci + ?co\<bar> \<le> 960 * 10 ^ 294" using i(3) out(3) by linarith
  with s B big_below_overflow have "\<bar>?ci + ?co\<bar> < dbl_overflow" by linarith
  then have add: "fadd fl (Finite ?ci) (Finite ?co) = Finite (fl (?ci + ?co))"
    by (simp add: to_double_finite)
  from fl_le [OF fl sum] have "\<bar>fl (?ci + ?co)\<bar> \<le> 1920 * 10 ^ 294" by simp
  then have rt: "py_round fl (Finite (fl (?ci + ?co))) 6
                   = Inr (Finite (fl (decimals 6 (fl (?ci + ?co)))))"
    using s B big_below_overflow by (intro py_round_finite) linarith
  show ?thesis
    unfolding calculate_cost_def Let_def
    by (simp only: p i(1) i(2) out(1) out(2) add ri ro rt option.case sum.case)
qed

text \<open>
  Claim C10 as stated fails: the record does not hold the product of the token count
  and the price but that product rounded to six decimals. One input token of
  \<^verbatim>\<open>gpt-4o-mini\<close> costs 0.00000015 and is recorded as 0 (already in exact
  arithmetic, where \<open>fl\<close> is the identity).
\<close>

theorem calculate_cost_input_cost_counterexample:
  "map_of (OPENAI_PRICING (\<lambda>x. x)) ''gpt-4o-mini''
     = Some \<lparr> input_price_per_1m = 3 / 20, output_price_per_1m = 3 / 5 \<rparr> \<and>
   map_sum id input_cost (snd (calculate_cost (\<lambda>x. x) ''t'' [] ''gpt-4o-mini'' 1 0))
     = Inr (Finite 0) \<and>
   (1 / 1000000) * (3 / 20) \<noteq> (0 :: rat)"
proof -
  have p: "map_of (OPENAI_PRICING (\<lambda>x. x)) ''gpt-4o-mini''
     = Some \<lparr> input_price_per_1m = 3 / 20, output_price_per_1m = 3 / 5 \<rparr>"
    by (simp add: OPENAI_PRICING_def)
  have d: "decimals 6 (rat_of_int 1 / 1000000 * (3 / 20)) = 0" by code_simp
  have "\<forall>x::rat. \<bar>x\<bar> \<le> 2 * \<bar>x\<bar>" by simp
  from calculate_cost_in_range [OF this p, of 1 0 "''t''" "[]"] d
  have "map_sum id input_cost (snd (calculate_cost (\<lambda>x. x) ''t'' [] ''gpt-4o-mini'' 1 0))
     = Inr (Finite 0)"
    by simp
  with p show ?thesis by simp
qed

text \<open>
  Token counts beyond the range of a double: with \<open>10 ^ 315\<close> input tokens the
  division raises \<^verbatim>\<open>OverflowError\<close> and nothing is appended; with \<open>10 ^ 313\<close>
  the product is an infinity, which is what the appended record holds.
\<close>

theorem calculate_cost_overflow:
  "calculate_cost (\<lambda>x. x) ''t'' [] ''gpt-4'' (10 ^ 315) 0 =
     ([], Inl (Exn OverflowError ''integer division result too large for a float'')) \<and>
   map_sum id input_cost (snd (calculate_cost (\<lambda>x. x) ''t'' [] ''gpt-4'' (10 ^ 313) 0))
     = Inr PosInf"
  by (simp add: calculate_cost_def OPENAI_PRICING_def int_truediv_def to_double_def
        dbl_overflow_def decimals_def round_half_even_def Let_def)

text \<open>
  Claim C10, amended. \<open>calculate_cost\<close> raises \<^verbatim>\<open>ValueError\<close> exactly when the
  model is not a key of the pricing table, and then, as after any exception,
  \<^verbatim>\<open>session_costs\<close> is unchanged. For a model of the table and token counts of
  magnitude at most \<open>10 ^ 300\<close> it appends exactly one record, which it also returns:
  the model and the two token counts as given, \<open>input_cost\<close> the product of
  \<open>input_tokens / 1000000\<close> and the input price rounded to six decimals,
  \<open>output_cost\<close> likewise, and \<open>total_cost\<close> the sum of the two unrounded costs
  rounded to six decimals. The rounding \<open>fl\<close> to a double is any function with
  \<open>\<bar>fl x\<bar> \<le> 2 * \<bar>x\<bar>\<close>; rounding to the nearest double is one, since zero is a
  double and the nearest double of \<open>x\<close> is no further from \<open>x\<close> than zero is.
\<close>

theorem calculate_cost_record:
  "((\<exists>msg. snd (calculate_cost fl now session_costs m n_in n_out) = Inl (Exn ValueError msg))
      \<longleftrightarrow> m \<notin> set (pricing_keys fl)) \<and>
   (m \<notin> set (pricing_keys fl) \<longrightarrow>
      fst (calculate_cost fl now session_costs m n_in n_out) = session_costs) \<and>
   (snd (calculate_cost fl now session_costs m n_in n_out) = Inl e \<longrightarrow>
      fst (calculate_cost fl now session_costs m n_in n_out) = session_costs) \<and>
   (map_of (OPENAI_PRICING fl) m = Some p \<and> (\<forall>x. \<bar>fl x\<bar> \<le> 2 * \<bar>x\<bar>)
      \<and> \<bar>n_in\<bar> \<le> 10 ^ 300 \<and> \<bar>n_out\<bar> \<le> 10 ^ 300 \<longrightarrow>
      calculate_cost fl now session_costs m n_in n_out =
        (session_costs @
           [\<lparr> model = m, input_tokens = n_in, output_tokens = n_out,
              input_cost =
                Finite (fl (decimals 6 (fl (fl (of_int n_in / 1000000) * input_price_per_1m p)))),
              output_cost =
                Finite (fl (decimals 6 (fl (fl (of_int n_out / 1000000) * output_price_per_1m p)))),
              total_cost =
                Finite (fl (decimals 6
                  (fl (fl (fl (of_int n_in / 1000000) * input_price_per_1m p)
                       + fl (fl (of_int n_out / 1000000) * output_price_per_1m p))))),
              timestamp = now \<rparr>],
         Inr \<lparr> model = m, input_tokens = n_in, output_tokens = n_out,
              input_cost =
                Finite (fl (decimals 6 (fl (fl (of_int n_in / 1000000) * input_price_per_1m p)))),
              output_cost =
                Finite (fl (decimals 6 (fl (fl (of_int n_out / 1000000) * output_price_per_1m p)))),
              total_cost =
                Finite (fl (decimals 6
                  (fl (fl (fl (of_int n_in / 1000000) * input_price_per_1m p)
                       + fl (fl (of_int n_out / 1000000) * output_price_per_1m p))))),
              timestamp = now \<rparr>))"
proof (intro conjI impI)
  show "(\<exists>msg. snd (calculate_cost fl now session_costs m n_in n_out) = Inl (Exn ValueError msg))
      \<longleftrightarrow> m \<notin> set (pricing_keys fl)"
  proof (cases "map_of (OPENAI_PRICING fl) m")
    case None
    then show ?thesis by (simp add: calculate_cost_def flip: map_of_pricing_None)
  next
    case (Some p)
    have "\<And>msg. snd (calculate_cost fl now session_costs m n_in n_out) \<noteq> Inl (Exn ValueError msg)"
      using Some
      by (auto simp add: calculate_cost_def Let_def split: sum.splits
               dest!: py_round_raises int_truediv_raises)
    with Some show ?thesis by (simp flip: map_of_pricing_None)
  qed
next
  assume "m \<notin> set (pricing_keys fl)"
  then have "map_of (OPENAI_PRICING fl) m = None" by (simp add: map_of_pricing_None)
  then show "fst (calculate_cost fl now session_costs m n_in n_out) = session_costs"
    by (simp add: calculate_cost_def)
next
  assume "snd (calculate_cost fl now session_costs m n_in n_out) = Inl e"
  then show "fst (calculate_cost fl now session_costs m n_in n_out) = session_costs"
    by (auto simp add: calculate_cost_def Let_def split: option.splits sum.splits)
next
  assume "map_of (OPENAI_PRICING fl) m = Some p \<and> (\<forall>x. \<bar>fl x\<bar> \<le> 2 * \<bar>x\<bar>)
      \<and> \<bar>n_in\<bar> \<le> 10 ^ 300 \<and> \<bar>n_out\<bar> \<le> 10 ^ 300"
  then show "calculate_cost fl now session_costs m n_in n_out =
        (session_costs @
           [\<lparr> model = m, input_tokens = n_in, output_tokens = n_out,
              input_cost =
                Finite (fl (decimals 6 (fl (fl (of_int n_in / 1000000) * input_price_per_1m p)))),
              output_cost =
                Finite (fl (decimals 6 (fl (fl (of_int n_out / 1000000) * output_price_per_1m p)))),
              total_cost =
                Finite (fl (decimals 6
                  (fl (fl (fl (of_int n_in / 1000000) * input_price_per_1m p)
                       + fl (fl (of_int n_out / 1000000) * output_price_per_1m p))))),
              timestamp = now \<rparr>],
         Inr \<lparr> model = m, input_tokens = n_in, output_tokens = n_out,
              input_cost =
                Finite (fl (decimals 6 (fl (fl (of_int n_in / 1000000) * input_price_per_1m p)))),
              output_cost =
                Finite (fl (decimals 6 (fl (fl (of_int n_out / 1000000) * output_price_per_1m p)))),
              total_cost =
                Finite (fl (decimals 6
                  (fl (fl (fl (of_int n_in / 1000000) * input_price_per_1m p)
                       + fl (fl (of_int n_out / 1000000) * output_price_per_1m p))))),
              timestamp = now \<rparr>)"
    by (intro calculate_cost_in_range) blast+
qed

text \<open>
  In exact arithmetic: an unknown model raises and leaves the list as it was, and
  1234567 input and 7654321 output tokens of \<^verbatim>\<open>gpt-4o-mini\<close> are recorded as
  0.185185, 4.592593 and 4.777778.
\<close>

theorem calculate_cost_record_witness:
  "''gpt-5'' \<notin> set (pricing_keys (\<lambda>x. x)) \<and>
   snd (calculate_cost (\<lambda>x. x) ''t'' [] ''gpt-5'' 1 0)
     = Inl (Exn ValueError ''Model 'gpt-5' not found in pricing table'') \<and>
   fst (calculate_cost (\<lambda>x. x) ''t'' [] ''gpt-5'' 1 0) = [] \<and>
   map_of (OPENAI_PRICING (\<lambda>x. x)) ''gpt-4o-mini''
     = Some \<lparr> input_price_per_1m = 3 / 20, output_price_per_1m = 3 / 5 \<rparr> \<and>
   calculate_cost (\<lambda>x. x) ''t'' [] ''gpt-4o-mini'' 1234567 7654321 =
     ([\<lparr> model = ''gpt-4o-mini'', input_tokens = 1234567, output_tokens = 7654321,
         input_cost = Finite (185185 / 1000000), output_cost = Finite (4592593 / 1000000),
         total_cost = Finite (4777778 / 1000000), timestamp = ''t'' \<rparr>],
      Inr \<lparr> model = ''gpt-4o-mini'', input_tokens = 1234567, output_tokens = 7654321,
           input_cost = Finite (185185 / 1000000), output_cost = Finite (4592593 / 1000000),
           total_cost = Finite (4777778 / 1000000), timestamp = ''t'' \<rparr>)"
proof -
  have k: "''gpt-5'' \<notin> set (pricing_keys (\<lambda>x. x))"
    by (simp add: pricing_keys_def OPENAI_PRICING_def)
  have v: "snd (calculate_cost (\<lambda>x. x) ''t'' [] ''gpt-5'' 1 0)
     = Inl (Exn ValueError ''Model 'gpt-5' not found in pricing table'')"
    by (simp add: calculate_cost_def OPENAI_PRICING_def)
  have p: "map_of (OPENAI_PRICING (\<lambda>x. x)) ''gpt-4o-mini''
     = Some \<lparr> input_price_per_1m = 3 / 20, output_price_per_1m = 3 / 5 \<rparr>"
    by (simp add: OPENAI_PRICING_def)
  have f: "\<forall>x::rat. \<bar>x\<bar> \<le> 2 * \<bar>x\<bar>" by simp
  have n: "\<bar>1234567 :: int\<bar> \<le> 10 ^ 300" "\<bar>7654321 :: int\<bar> \<le> 10 ^ 300" by simp_all
  have r1: "decimals 6 (rat_of_int 1234567 / 1000000 * (3 / 20)) = 185185 / 1000000"
    by code_simp
  have r2: "decimals 6 (rat_of_int 7654321 / 1000000 * (3 / 5)) = 4592593 / 1000000"
    by code_simp
  have r3: "decimals 6 (rat_of_int 1234567 / 1000000 * (3 / 20)
                        + rat_of_int 7654321 / 1000000 * (3 / 5)) = 4777778 / 1000000"
    by code_simp
  note a = calculate_cost_record [of "\<lambda>x. x" "''t''" "[]" "''gpt-5''" 1 0]
  note b = calculate_cost_record [of "\<lambda>x. x" "''t''" "[]" "''gpt-4o-mini''" 1234567 7654321 _
             "\<lparr> input_price_per_1m = 3 / 20, output_price_per_1m = 3 / 5 \<rparr>"]
  from a k have a': "fst (calculate_cost (\<lambda>x. x) ''t'' [] ''gpt-5'' 1 0) = []" by blast
  from b p f n have "calculate_cost (\<lambda>x. x) ''t'' [] ''gpt-4o-mini'' 1234567 7654321 =
     ([\<lparr> model = ''gpt-4o-mini'', input_tokens = 1234567, output_tokens = 7654321,
         input_cost = Finite (decimals 6 (rat_of_int 1234567 / 1000000 * (3 / 20))),
         output_cost = Finite (decimals 6 (rat_of_int 7654321 / 1000000 * (3 / 5))),
         total_cost = Finite (decimals 6 (rat_of_int 1234567 / 1000000 * (3 / 20)
                        + rat_of_int 7654321 / 1000000 * (3 / 5))), timestamp = ''t'' \<rparr>],
      Inr \<lparr> model = ''gpt-4o-mini'', input_tokens = 1234567, output_tokens = 7654321,
         input_cost = Finite (decimals 6 (rat_of_int 1234567 / 1000000 * (3 / 20))),
         output_cost = Finite (decimals 6 (rat_of_int 7654321 / 1000000 * (3 / 5))),
         total_cost = Finite (decimals 6 (rat_of_int 1234567 / 1000000 * (3 / 20)
                        + rat_of_int 7654321 / 1000000 * (3 / 5))), timestamp = ''t'' \<rparr>)"
    by simp
  then have b': "calculate_cost (\<lambda>x. x) ''t'' [] ''gpt-4o-mini'' 1234567 7654321 =
     ([\<lparr> model = ''gpt-4o-mini'', input_tokens = 1234567, output_tokens = 7654321,
         input_cost = Finite (185185 / 1000000), output_cost = Finite (4592593 / 1000000),
         total_cost = Finite (4777778 / 1000000), timestamp = ''t'' \<rparr>],
      Inr \<lparr> model = ''gpt-4o-mini'', input_tokens = 1234567, output_tokens = 7654321,
           input_cost = Finite (185185 / 1000000), output_cost = Finite (4592593 / 1000000),
           total_cost = Finite (4777778 / 1000000), timestamp = ''t'' \<rparr>)"
    by (simp only: r1 r2 r3)
  from k v a' p b' show ?thesis by blast
qed

end
